theory Spec2Isabelle
  imports Main "HOL-Library.Word"
begin

section \<open>The Kubernetes environment of kuber: environment/kubernetes/environment.go\<close>

text \<open>
  The file defines the type \<open>Environment\<close>, its constructor \<open>New\<close> and the methods that
  query the cluster (\<open>Exists\<close>, \<open>IsRunning\<close>, \<open>ExitState\<close>) or change the local fields
  (\<open>SetStream\<close>, \<open>SetStopConfiguration\<close>, \<open>SetImage\<close>, \<open>SetState\<close>, \<open>SetLogCallback\<close>).
  The model is sequential: one call runs from start to end, so the mutexes \<open>mu\<close> and
  \<open>logCallbackMx\<close> have no field here. The field \<open>stats\<close> is never read or written by
  this file and is left out as well.
\<close>

subsection \<open>Values of the Kubernetes API that the file reads\<close>

text \<open>
  Of \<open>v1.Pod\<close> the code reads \<open>Status.Phase\<close> and
  \<open>Status.ContainerStatuses[0].State.Terminated.ExitCode\<close>. \<open>ExitCode\<close> is an \<open>int32\<close>
  (a 32-bit word read in two's complement, by \<open>sint\<close>), \<open>Terminated\<close> a pointer
  (\<open>None\<close> is \<open>nil\<close>), \<open>ContainerStatuses\<close> a slice. The field \<open>State\<close> of
  \<open>v1.ContainerStatus\<close> is \<open>State_cs\<close> here, since \<open>State\<close> is the method of
  \<open>Environment\<close>.
\<close>

type_synonym int32 = "32 word"

type_synonym uint32 = "32 word"

record ContainerStateTerminated =
  ExitCode :: int32

record ContainerState =
  Terminated :: "ContainerStateTerminated option"

record ContainerStatus =
  State_cs :: ContainerState

record PodStatus =
  Phase :: string
  ContainerStatuses :: "ContainerStatus list"

record Pod =
  Status :: PodStatus

text \<open>The phase constant \<open>v1.PodRunning\<close> of the Kubernetes API.\<close>

definition PodRunning :: string where
  "PodRunning = ''Running''"

text \<open>
  What the methods take from outside the repository: the namespace
  \<open>config.Get().Cluster.Namespace\<close>, the context \<open>context.Background()\<close> and the predicate
  \<open>apierrors.IsNotFound\<close> on errors. The type \<open>'e\<close> is Go's \<open>error\<close>, \<open>'ctx\<close> is
  \<open>context.Context\<close>.
\<close>

record ('ctx, 'e) cluster_api =
  Namespace :: string
  Background :: 'ctx
  IsNotFound :: "'e \<Rightarrow> bool"

subsection \<open>Packages of the repository that the file imports\<close>

text \<open>
  The string constants of package \<open>environment\<close> that \<open>New\<close> and \<open>SetState\<close> name. Their
  declarations are in another file of the repository; they are parameters here, so nothing
  below depends on how they are spelled.
\<close>

record environment_pkg =
  ProcessOfflineState :: string
  ProcessStartingState :: string
  ProcessRunningState :: string
  ProcessStoppingState :: string
  StateChangeEvent :: string

text \<open>
  Modelled from the spec: \<open>system.AtomicString\<close> is declared in another file. The spec
  (4.1) gives it as a holder of one string with \<open>load\<close> and \<open>store\<close>, each atomic.
\<close>

datatype AtomicString = AtomicString string

definition NewAtomicString :: "string \<Rightarrow> AtomicString" where
  "NewAtomicString v = AtomicString v"

fun Load :: "AtomicString \<Rightarrow> string" where
  "Load (AtomicString v) = v"

fun Store :: "string \<Rightarrow> AtomicString \<Rightarrow> AtomicString" where
  "Store v (AtomicString _) = AtomicString v"

text \<open>
  Modelled from the spec: \<open>events.Bus\<close> is declared in another file. The spec (2, 5, 6)
  gives it as an opaque channel with \<open>publish(topic, payload)\<close>, performed synchronously at
  the point of the call. The bus is the list of what was published, oldest first. Each
  entry keeps the topic, the payload and \<open>StateSeen\<close>: the value that \<open>State()\<close> of the
  publishing environment has while the publish runs, which is what a listener reads when it
  calls \<open>State()\<close> from its handler.
\<close>

record Delivery =
  Topic :: string
  Data :: string
  StateSeen :: string

record Bus =
  published :: "Delivery list"

definition NewBus :: Bus where
  "NewBus = \<lparr>published = []\<rparr>"

subsection \<open>The types of the file\<close>

text \<open>
  \<open>'p\<close> is \<open>remote.ProcessStopConfiguration\<close>, \<open>'c\<close> is \<open>*environment.Configuration\<close>,
  \<open>'r\<close> is \<open>*rest.Config\<close>, \<open>'x\<close> is a non-nil \<open>remotecommand.Executor\<close> and \<open>'l\<close> a
  non-nil \<open>func([]byte)\<close>; the nil stream and the nil callback are \<open>None\<close>. The field
  \<open>client\<close> is the one call the file makes on the client set:
  \<open>client.CoreV1().Pods(namespace).Get(ctx, name, metav1.GetOptions{})\<close>, with \<open>Inl\<close> the
  error. The field \<open>Id\<close> is \<open>Id_env\<close>.
\<close>

record 'p Metadata =
  Image :: string
  Stop :: 'p

record ('c, 'p, 'r, 'ctx, 'e, 'x, 'l) Environment =
  Id_env :: string
  Configuration :: 'c
  meta :: "'p Metadata"
  config :: 'r
  client :: "string \<Rightarrow> 'ctx \<Rightarrow> string \<Rightarrow> 'e + Pod"
  stream :: "'x option"
  emitter :: Bus
  logCallback :: "'l option"
  st :: AtomicString

text \<open>A call either returns or panics with a message.\<close>

datatype 'a exec = Panicked string | Returned 'a

subsection \<open>Constructor\<close>

text \<open>
  \<open>cluster\<close> is the result of \<open>environment.Cluster()\<close>: an error, or the configuration and
  the client. Fields that the composite literal does not name are nil.
\<close>

definition New ::
  "environment_pkg \<Rightarrow> 'e + 'r \<times> (string \<Rightarrow> 'ctx \<Rightarrow> string \<Rightarrow> 'e + Pod) \<Rightarrow> string \<Rightarrow> 'p Metadata \<Rightarrow> 'c
    \<Rightarrow> 'e + ('c, 'p, 'r, 'ctx, 'e, 'x, 'l) Environment" where
  "New K cluster ident m c =
     (case cluster of
        Inl err \<Rightarrow> Inl err
      | Inr (config', cli) \<Rightarrow>
          Inr \<lparr>Id_env = ident, Configuration = c, meta = m, config = config', client = cli,
               stream = None, emitter = NewBus, logCallback = None,
               st = NewAtomicString (ProcessOfflineState K)\<rparr>)"

subsection \<open>Stream, metadata and log callback\<close>

definition SetStream ::
  "'x option \<Rightarrow> ('c, 'p, 'r, 'ctx, 'e, 'x, 'l) Environment \<Rightarrow> ('c, 'p, 'r, 'ctx, 'e, 'x, 'l) Environment" where
  "SetStream s e = e\<lparr>stream := s\<rparr>"

definition IsAttached :: "('c, 'p, 'r, 'ctx, 'e, 'x, 'l) Environment \<Rightarrow> bool" where
  "IsAttached e \<longleftrightarrow> stream e \<noteq> None"

definition Events :: "('c, 'p, 'r, 'ctx, 'e, 'x, 'l) Environment \<Rightarrow> Bus" where
  "Events e = emitter e"

definition Config :: "('c, 'p, 'r, 'ctx, 'e, 'x, 'l) Environment \<Rightarrow> 'c" where
  "Config e = Configuration e"

definition SetStopConfiguration ::
  "'p \<Rightarrow> ('c, 'p, 'r, 'ctx, 'e, 'x, 'l) Environment \<Rightarrow> ('c, 'p, 'r, 'ctx, 'e, 'x, 'l) Environment" where
  "SetStopConfiguration c e = e\<lparr>meta := (meta e)\<lparr>Stop := c\<rparr>\<rparr>"

definition SetImage ::
  "string \<Rightarrow> ('c, 'p, 'r, 'ctx, 'e, 'x, 'l) Environment \<Rightarrow> ('c, 'p, 'r, 'ctx, 'e, 'x, 'l) Environment" where
  "SetImage i e = e\<lparr>meta := (meta e)\<lparr>Image := i\<rparr>\<rparr>"

definition SetLogCallback ::
  "'l option \<Rightarrow> ('c, 'p, 'r, 'ctx, 'e, 'x, 'l) Environment \<Rightarrow> ('c, 'p, 'r, 'ctx, 'e, 'x, 'l) Environment" where
  "SetLogCallback f e = e\<lparr>logCallback := f\<rparr>"

subsection \<open>Queries to the cluster\<close>

text \<open>A Go result \<open>(v, error)\<close> is a pair whose error is \<open>None\<close> for \<open>nil\<close>.\<close>

definition Exists ::
  "('ctx, 'e) cluster_api \<Rightarrow> ('c, 'p, 'r, 'ctx, 'e, 'x, 'l) Environment \<Rightarrow> bool \<times> 'e option" where
  "Exists A e =
     (case client e (Namespace A) (Background A) (Id_env e) of
        Inl err \<Rightarrow> if IsNotFound A err then (False, None) else (False, Some err)
      | Inr _ \<Rightarrow> (True, None))"

definition IsRunning ::
  "('ctx, 'e) cluster_api \<Rightarrow> ('c, 'p, 'r, 'ctx, 'e, 'x, 'l) Environment \<Rightarrow> 'ctx \<Rightarrow> bool \<times> 'e option" where
  "IsRunning A e ctx =
     (case client e (Namespace A) ctx (Id_env e) of
        Inl err \<Rightarrow> (False, Some err)
      | Inr c \<Rightarrow> if Phase (Status c) = PodRunning then (True, None) else (False, None))"

text \<open>
  Go's conversion \<open>uint32(x)\<close> of an \<open>int32\<close>: the value of \<open>x\<close>, truncated to 32 bits
  and read unsigned (by \<open>uint\<close> or \<open>unat\<close>).
\<close>

definition uint32 :: "int32 \<Rightarrow> uint32" where
  "uint32 x = word_of_int (sint x)"

text \<open>
  The read \<open>ContainerStatuses[0]\<close> happens only under \<open>len(...) != 0\<close>, so it is the head
  of a non-empty list.
\<close>

definition ExitState ::
  "('ctx, 'e) cluster_api \<Rightarrow> ('c, 'p, 'r, 'ctx, 'e, 'x, 'l) Environment \<Rightarrow> uint32 \<times> bool \<times> 'e option" where
  "ExitState A e =
     (case client e (Namespace A) (Background A) (Id_env e) of
        Inl err \<Rightarrow> if IsNotFound A err then (1, False, None) else (0, False, Some err)
      | Inr c \<Rightarrow>
          (case ContainerStatuses (Status c) of
             [] \<Rightarrow> (1, False, None)
           | c0 # _ \<Rightarrow>
               (case Terminated (State_cs c0) of
                  None \<Rightarrow> (1, False, None)
                | Some t \<Rightarrow>
                    if ExitCode t = 137 then (137, True, None)
                    else (uint32 (ExitCode t), False, None))))"

subsection \<open>The state\<close>

definition State :: "('c, 'p, 'r, 'ctx, 'e, 'x, 'l) Environment \<Rightarrow> string" where
  "State e = Load (st e)"

text \<open>
  \<open>e.Events().Publish(topic, data)\<close>: the bus of \<open>e\<close> gets one more entry. The listeners
  run inside this call, so the state they see is the one \<open>e\<close> has when it is made.
\<close>

definition Publish ::
  "string \<Rightarrow> string \<Rightarrow> ('c, 'p, 'r, 'ctx, 'e, 'x, 'l) Environment \<Rightarrow> ('c, 'p, 'r, 'ctx, 'e, 'x, 'l) Environment" where
  "Publish topic data e =
     e\<lparr>emitter := (Events e)\<lparr>published :=
          published (Events e) @ [\<lparr>Topic = topic, Data = data, StateSeen = State e\<rparr>]\<rparr>\<rparr>"

text \<open>
  The panic value is \<open>errors.New(fmt.Sprintf("invalid server state received: %s", state))\<close>;
  the model keeps its message.
\<close>

definition SetState ::
  "environment_pkg \<Rightarrow> ('c, 'p, 'r, 'ctx, 'e, 'x, 'l) Environment \<Rightarrow> string
    \<Rightarrow> ('c, 'p, 'r, 'ctx, 'e, 'x, 'l) Environment exec" where
  "SetState K e state =
     (if state \<noteq> ProcessOfflineState K \<and>
         state \<noteq> ProcessStartingState K \<and>
         state \<noteq> ProcessRunningState K \<and>
         state \<noteq> ProcessStoppingState K
      then Panicked (''invalid server state received: '' @ state)
      else if State e \<noteq> state
        then Returned (Publish (StateChangeEvent K) state (e\<lparr>st := Store state (st e)\<rparr>))
        else Returned e)"

subsection \<open>Vocabulary of the properties\<close>

text \<open>The four values of the status, as the guard of \<open>SetState\<close> lists them.\<close>

definition valid_states :: "environment_pkg \<Rightarrow> string set" where
  "valid_states K =
     {ProcessOfflineState K, ProcessStartingState K, ProcessRunningState K, ProcessStoppingState K}"

text \<open>
  The calls that change an environment, and a run of them from a given environment. A run
  ends at the first panic. The queries and getters return no new environment, so they are
  not steps.
\<close>

datatype ('p, 'x, 'l) call =
    CallSetStream "'x option"
  | CallSetStopConfiguration 'p
  | CallSetImage string
  | CallSetState string
  | CallSetLogCallback "'l option"

fun step ::
  "environment_pkg \<Rightarrow> ('c, 'p, 'r, 'ctx, 'e, 'x, 'l) Environment \<Rightarrow> ('p, 'x, 'l) call
    \<Rightarrow> ('c, 'p, 'r, 'ctx, 'e, 'x, 'l) Environment exec" where
  "step K e (CallSetStream s) = Returned (SetStream s e)"
| "step K e (CallSetStopConfiguration c) = Returned (SetStopConfiguration c e)"
| "step K e (CallSetImage i) = Returned (SetImage i e)"
| "step K e (CallSetState s) = SetState K e s"
| "step K e (CallSetLogCallback f) = Returned (SetLogCallback f e)"

fun run ::
  "environment_pkg \<Rightarrow> ('c, 'p, 'r, 'ctx, 'e, 'x, 'l) Environment \<Rightarrow> ('p, 'x, 'l) call list
    \<Rightarrow> ('c, 'p, 'r, 'ctx, 'e, 'x, 'l) Environment exec" where
  "run K e [] = Returned e"
| "run K e (c # cs) =
     (case step K e c of Panicked msg \<Rightarrow> Panicked msg | Returned e' \<Rightarrow> run K e' cs)"

text \<open>Concrete values for the examples.\<close>

definition K0 :: environment_pkg where
  "K0 = \<lparr>ProcessOfflineState = ''offline'', ProcessStartingState = ''starting'',
         ProcessRunningState = ''running'', ProcessStoppingState = ''stopping'',
         StateChangeEvent = ''state change''\<rparr>"

definition A0 :: "(unit, string) cluster_api" where
  "A0 = \<lparr>Namespace = ''default'', Background = (), IsNotFound = (\<lambda>err. err = ''not found'')\<rparr>"

definition pod_of :: "string \<Rightarrow> ContainerStatus list \<Rightarrow> Pod" where
  "pod_of ph cs = \<lparr>Status = \<lparr>Phase = ph, ContainerStatuses = cs\<rparr>\<rparr>"

definition exited :: "int32 \<Rightarrow> ContainerStatus" where
  "exited n = \<lparr>State_cs = \<lparr>Terminated = Some \<lparr>ExitCode = n\<rparr>\<rparr>\<rparr>"

definition alive :: ContainerStatus where
  "alive = \<lparr>State_cs = \<lparr>Terminated = None\<rparr>\<rparr>"

text \<open>
  An environment whose every lookup answers \<open>r\<close> and whose state is \<open>s\<close>, and the
  environment that five calls make of a new one.
\<close>

definition env_with ::
  "string + Pod \<Rightarrow> string \<Rightarrow> (unit, unit, unit, unit, string, nat, unit) Environment" where
  "env_with r s =
     \<lparr>Id_env = ''srv'', Configuration = (), meta = \<lparr>Image = ''img'', Stop = ()\<rparr>,
      config = (), client = (\<lambda>ns ctx name. r), stream = None, emitter = NewBus,
      logCallback = None, st = NewAtomicString s\<rparr>"

definition env_after :: "(unit, unit, unit, unit, string, nat, unit) Environment" where
  "env_after =
     \<lparr>Id_env = ''srv'', Configuration = (), meta = \<lparr>Image = ''img2'', Stop = ()\<rparr>,
      config = (), client = (\<lambda>ns ctx name. Inl ''not found''), stream = Some 7,
      emitter = \<lparr>published =
        [\<lparr>Topic = ''state change'', Data = ''starting'', StateSeen = ''starting''\<rparr>,
         \<lparr>Topic = ''state change'', Data = ''running'', StateSeen = ''running''\<rparr>]\<rparr>,
      logCallback = None, st = AtomicString ''running''\<rparr>"

section \<open>Properties\<close>

subsection \<open>Auxiliary facts\<close>

lemma Load_Store: "Load (Store v a) = v"
  by (cases a) simp

lemma SetState_Returned:
  "SetState K e s = Returned e' \<Longrightarrow> State e' = s \<and> s \<in> valid_states K"
  by (auto simp: SetState_def valid_states_def Publish_def Events_def State_def Load_Store
           split: if_splits)

lemma SetState_Panicked_or_Returned:
  "SetState K e s = Panicked (''invalid server state received: '' @ s) \<or>
   (\<exists>e'. SetState K e s = Returned e')"
  by (simp add: SetState_def)

lemma uint32_same: "uint32 x = x"
  by (simp add: uint32_def)

lemma uint_uint32: "uint (uint32 x) = sint x mod 2 ^ 32"
  unfolding uint32_def by (simp only: uint_word_of_int) simp

lemma uint_uint32_nonneg: "0 \<le> sint x \<Longrightarrow> uint (uint32 x) = sint x"
proof -
  assume nn: "0 \<le> sint x"
  have "sint x < 2 ^ 31" using sint_lt [of x] by simp
  then have "sint x < 2 ^ 32" by simp
  with nn show ?thesis by (simp add: uint_uint32)
qed

lemma step_other_State:
  "step K e c = Returned e' \<Longrightarrow> \<forall>s. c \<noteq> CallSetState s \<Longrightarrow> State e' = State e"
  by (cases c)
     (auto simp: SetStream_def SetStopConfiguration_def SetImage_def SetLogCallback_def State_def)

lemma step_State:
  "step K e c = Returned e' \<Longrightarrow> State e \<in> valid_states K \<Longrightarrow> State e' \<in> valid_states K"
proof (cases "\<exists>s. c = CallSetState s")
  case True
  assume "step K e c = Returned e'"
  with True show ?thesis by (auto dest: SetState_Returned)
next
  case False
  assume "step K e c = Returned e'" and "State e \<in> valid_states K"
  with False show ?thesis by (simp add: step_other_State)
qed

lemma run_State:
  "run K e cs = Returned e' \<Longrightarrow> State e \<in> valid_states K \<Longrightarrow> State e' \<in> valid_states K"
proof (induction cs arbitrary: e)
  case Nil
  then show ?case by simp
next
  case (Cons c cs)
  then show ?case by (auto split: exec.splits dest: step_State)
qed

lemma New_State:
  "New K cluster ident m c = Inr e \<Longrightarrow> State e = ProcessOfflineState K \<and> stream e = None"
  by (auto simp: New_def State_def NewAtomicString_def split: sum.splits prod.splits)

lemma New_example:
  "New K0 (Inr ((), \<lambda>ns ctx name. Inl ''not found'')) ''srv'' \<lparr>Image = ''img'', Stop = ()\<rparr> ()
     = Inr (env_with (Inl ''not found'') ''offline'')"
  by (simp add: New_def env_with_def K0_def)

lemma run_example:
  "run K0 (env_with (Inl ''not found'') ''offline'')
     [CallSetState ''starting'', CallSetStream (Some 7), CallSetState ''starting'',
      CallSetImage ''img2'', CallSetState ''running''] = Returned env_after"
  by (simp add: env_with_def env_after_def K0_def SetState_def SetStream_def SetImage_def
      Publish_def Events_def State_def NewAtomicString_def NewBus_def)

subsection \<open>SetState\<close>

text \<open>
  C1. A call \<open>SetState(s)\<close> with \<open>s\<close> one of the four values and different from the stored
  state returns, and leaves an environment whose state is \<open>s\<close> and whose bus has exactly
  one entry more: the topic \<open>StateChangeEvent\<close> with payload \<open>s\<close>, published when the
  state already was \<open>s\<close> (the store comes before the publish).
\<close>

theorem SetState_stores_then_publishes:
  assumes "s \<in> valid_states K" and "State e \<noteq> s"
  shows "\<exists>e'. SetState K e s = Returned e' \<and> State e' = s \<and>
           published (Events e') =
             published (Events e) @ [\<lparr>Topic = StateChangeEvent K, Data = s, StateSeen = s\<rparr>]"
  using assms
  by (auto simp: SetState_def valid_states_def Publish_def Events_def State_def Load_Store)

theorem SetState_stores_then_publishes_witness:
  "''running'' \<in> valid_states K0 \<and>
   State (env_with (Inl ''not found'') ''offline'') \<noteq> ''running'' \<and>
   (\<exists>e'. SetState K0 (env_with (Inl ''not found'') ''offline'') ''running'' = Returned e' \<and>
      State e' = ''running'' \<and>
      published (Events e') =
        [\<lparr>Topic = ''state change'', Data = ''running'', StateSeen = ''running''\<rparr>])"
  using SetState_stores_then_publishes
          [where s = "''running''" and K = K0 and e = "env_with (Inl ''not found'') ''offline''"]
  by (simp add: valid_states_def K0_def env_with_def State_def NewAtomicString_def Events_def
      NewBus_def)

text \<open>
  C2. A call \<open>SetState(s)\<close> with \<open>s\<close> one of the four values and equal to the stored state
  returns the environment as it was: the state is the same and nothing is published.
\<close>

theorem SetState_current_is_noop:
  "s \<in> valid_states K \<Longrightarrow> State e = s \<Longrightarrow> SetState K e s = Returned e"
  by (auto simp: SetState_def valid_states_def)

theorem SetState_current_is_noop_witness:
  "''running'' \<in> valid_states K0 \<and> State env_after = ''running'' \<and>
   SetState K0 env_after ''running'' = Returned env_after \<and>
   length (published (Events env_after)) = 2"
  using SetState_current_is_noop [where s = "''running''" and K = K0 and e = env_after]
  by (simp add: valid_states_def K0_def env_after_def State_def Events_def)

text \<open>
  C3. A call \<open>SetState(s)\<close> with \<open>s\<close> none of the four values panics (with the message
  \<open>invalid server state received: s\<close>); it does not return.
\<close>

theorem SetState_invalid_panics:
  "s \<notin> valid_states K \<Longrightarrow>
     SetState K e s = Panicked (''invalid server state received: '' @ s) \<and>
     (\<forall>e'. SetState K e s \<noteq> Returned e')"
  by (simp add: SetState_def valid_states_def)

theorem SetState_invalid_panics_witness:
  "''paused'' \<notin> valid_states K0 \<and>
   SetState K0 env_after ''paused'' = Panicked ''invalid server state received: paused''"
  using SetState_invalid_panics [where s = "''paused''" and K = K0 and e = env_after]
  by (simp add: valid_states_def K0_def)

subsection \<open>ExitState\<close>

text \<open>
  C4. When the lookup finds the pod and its first container status has a termination
  record \<open>t\<close>, \<open>ExitState\<close> returns \<open>(137, true, nil)\<close> if the exit code of \<open>t\<close> is 137, and
  otherwise \<open>(uint32(code), false, nil)\<close>. The converted code has the value of the raw
  one when that is not negative, and the value modulo \<open>2^32\<close> in general.
\<close>

theorem ExitState_terminated:
  assumes "client e (Namespace A) (Background A) (Id_env e) = Inr c"
    and "ContainerStatuses (Status c) = c0 # cs"
    and "Terminated (State_cs c0) = Some t"
  shows "(ExitCode t = 137 \<longrightarrow> ExitState A e = (137, True, None)) \<and>
         (ExitCode t \<noteq> 137 \<longrightarrow> ExitState A e = (uint32 (ExitCode t), False, None)) \<and>
         uint (uint32 (ExitCode t)) = sint (ExitCode t) mod 2 ^ 32 \<and>
         (0 \<le> sint (ExitCode t) \<longrightarrow> uint (uint32 (ExitCode t)) = sint (ExitCode t))"
proof -
  have "ExitState A e =
          (if ExitCode t = 137 then (137, True, None) else (uint32 (ExitCode t), False, None))"
    using assms by (simp add: ExitState_def)
  moreover have "uint (uint32 (ExitCode t)) = sint (ExitCode t) mod 2 ^ 32"
    by (rule uint_uint32)
  moreover have "0 \<le> sint (ExitCode t) \<longrightarrow> uint (uint32 (ExitCode t)) = sint (ExitCode t)"
    using uint_uint32_nonneg by blast
  ultimately show ?thesis by simp
qed

theorem ExitState_terminated_witness:
  "ExitState A0 (env_with (Inr (pod_of ''Succeeded'' [exited 137, alive])) ''running'')
     = (137, True, None) \<and>
   ExitState A0 (env_with (Inr (pod_of ''Succeeded'' [exited 0])) ''running'')
     = (0, False, None) \<and>
   ExitState A0 (env_with (Inr (pod_of ''Failed'' [exited (- 1)])) ''running'')
     = (4294967295, False, None)"
  using
    ExitState_terminated
      [where e = "env_with (Inr (pod_of ''Succeeded'' [exited 137, alive])) ''running''"
         and A = A0 and c = "pod_of ''Succeeded'' [exited 137, alive]"
         and ?c0.0 = "exited 137" and cs = "[alive]" and t = "\<lparr>ExitCode = 137\<rparr>"]
    ExitState_terminated
      [where e = "env_with (Inr (pod_of ''Succeeded'' [exited 0])) ''running''"
         and A = A0 and c = "pod_of ''Succeeded'' [exited 0]"
         and ?c0.0 = "exited 0" and cs = "[]" and t = "\<lparr>ExitCode = 0\<rparr>"]
    ExitState_terminated
      [where e = "env_with (Inr (pod_of ''Failed'' [exited (- 1)])) ''running''"
         and A = A0 and c = "pod_of ''Failed'' [exited (- 1)]"
         and ?c0.0 = "exited (- 1)" and cs = "[]" and t = "\<lparr>ExitCode = - 1\<rparr>"]
  by (simp add: env_with_def pod_of_def exited_def alive_def uint32_same)

text \<open>
  C5. \<open>ExitState\<close> returns \<open>(1, false, nil)\<close> when the lookup fails with a not-found error,
  and when it finds the pod but reads no termination record: the pod has no container
  statuses, or its first container status has none (so also when no container status has
  one). The phase of the pod plays no part.
\<close>

theorem ExitState_defaults:
  "(client e (Namespace A) (Background A) (Id_env e) = Inl err \<and> IsNotFound A err
      \<longrightarrow> ExitState A e = (1, False, None)) \<and>
   (client e (Namespace A) (Background A) (Id_env e) = Inr c \<and>
      (ContainerStatuses (Status c) = [] \<or>
       Terminated (State_cs (hd (ContainerStatuses (Status c)))) = None \<or>
       (\<forall>x \<in> set (ContainerStatuses (Status c)). Terminated (State_cs x) = None))
      \<longrightarrow> ExitState A e = (1, False, None))"
  by (auto simp: ExitState_def split: list.splits option.splits)

theorem ExitState_defaults_witness:
  "ExitState A0 (env_with (Inl ''not found'') ''running'') = (1, False, None) \<and>
   ExitState A0 (env_with (Inr (pod_of ''Running'' [alive])) ''running'') = (1, False, None) \<and>
   ExitState A0 (env_with (Inr (pod_of ''Pending'' [])) ''running'') = (1, False, None) \<and>
   ExitState A0 (env_with (Inr (pod_of ''Unknown'' [alive, alive])) ''running'')
     = (1, False, None)"
  using
    ExitState_defaults
      [where e = "env_with (Inl ''not found'') ''running''" and A = A0
         and err = "''not found''"]
    ExitState_defaults
      [where e = "env_with (Inr (pod_of ''Running'' [alive])) ''running''" and A = A0
         and c = "pod_of ''Running'' [alive]"]
    ExitState_defaults
      [where e = "env_with (Inr (pod_of ''Pending'' [])) ''running''" and A = A0
         and c = "pod_of ''Pending'' []"]
    ExitState_defaults
      [where e = "env_with (Inr (pod_of ''Unknown'' [alive, alive])) ''running''" and A = A0
         and c = "pod_of ''Unknown'' [alive, alive]"]
  by (simp add: env_with_def pod_of_def alive_def A0_def)

text \<open>
  C10. When the lookup of \<open>ExitState\<close> fails with an error that is not a not-found error,
  the result is \<open>(0, false, err)\<close>: the exit code is 0, not the 1 of the defaults.
\<close>

theorem ExitState_other_error:
  "client e (Namespace A) (Background A) (Id_env e) = Inl err \<Longrightarrow> \<not> IsNotFound A err \<Longrightarrow>
     ExitState A e = (0, False, Some err) \<and> fst (ExitState A e) \<noteq> 1"
  by (simp add: ExitState_def)

theorem ExitState_other_error_witness:
  "\<not> IsNotFound A0 ''timeout'' \<and>
   ExitState A0 (env_with (Inl ''timeout'') ''running'') = (0, False, Some ''timeout'')"
  using ExitState_other_error
          [where e = "env_with (Inl ''timeout'') ''running''" and A = A0 and err = "''timeout''"]
  by (simp add: env_with_def A0_def)

subsection \<open>Exists and IsRunning\<close>

text \<open>
  C6. \<open>Exists\<close> returns \<open>(false, nil)\<close> when the lookup fails with a not-found error,
  \<open>(false, err)\<close> with the same error when it fails with another one, and \<open>(true, nil)\<close>
  when it succeeds.
\<close>

theorem Exists_results:
  "(client e (Namespace A) (Background A) (Id_env e) = Inl err \<and> IsNotFound A err
      \<longrightarrow> Exists A e = (False, None)) \<and>
   (client e (Namespace A) (Background A) (Id_env e) = Inl err \<and> \<not> IsNotFound A err
      \<longrightarrow> Exists A e = (False, Some err)) \<and>
   (client e (Namespace A) (Background A) (Id_env e) = Inr c \<longrightarrow> Exists A e = (True, None))"
  by (simp add: Exists_def)

theorem Exists_results_witness:
  "Exists A0 (env_with (Inl ''not found'') ''offline'') = (False, None) \<and>
   Exists A0 (env_with (Inl ''timeout'') ''offline'') = (False, Some ''timeout'') \<and>
   Exists A0 (env_with (Inr (pod_of ''Pending'' [])) ''offline'') = (True, None)"
  using
    Exists_results
      [where e = "env_with (Inl ''not found'') ''offline''" and A = A0
         and err = "''not found''"]
    Exists_results
      [where e = "env_with (Inl ''timeout'') ''offline''" and A = A0 and err = "''timeout''"]
    Exists_results
      [where e = "env_with (Inr (pod_of ''Pending'' [])) ''offline''" and A = A0
         and c = "pod_of ''Pending'' []"]
  by (simp add: env_with_def A0_def)

text \<open>
  C7. \<open>IsRunning\<close> returns \<open>(true, nil)\<close> exactly when the lookup succeeds and the phase of
  the pod is \<open>PodRunning\<close>. When the lookup fails, with a not-found error or any other,
  it returns \<open>(false, err)\<close> with that error.
\<close>

theorem IsRunning_results:
  "(IsRunning A e ctx = (True, None) \<longleftrightarrow>
      (\<exists>c. client e (Namespace A) ctx (Id_env e) = Inr c \<and> Phase (Status c) = PodRunning)) \<and>
   (client e (Namespace A) ctx (Id_env e) = Inl err \<longrightarrow> IsRunning A e ctx = (False, Some err))"
  by (auto simp: IsRunning_def split: sum.splits)

theorem IsRunning_results_witness:
  "IsRunning A0 (env_with (Inr (pod_of ''Running'' [alive])) ''running'') () = (True, None) \<and>
   IsRunning A0 (env_with (Inr (pod_of ''Pending'' [])) ''starting'') () \<noteq> (True, None) \<and>
   IsNotFound A0 ''not found'' \<and>
   IsRunning A0 (env_with (Inl ''not found'') ''starting'') () = (False, Some ''not found'')"
  using
    IsRunning_results
      [where e = "env_with (Inr (pod_of ''Running'' [alive])) ''running''" and A = A0
         and ctx = "()"]
    IsRunning_results
      [where e = "env_with (Inr (pod_of ''Pending'' [])) ''starting''" and A = A0
         and ctx = "()"]
    IsRunning_results
      [where e = "env_with (Inl ''not found'') ''starting''" and A = A0 and ctx = "()"
         and err = "''not found''"]
  by (simp add: env_with_def pod_of_def PodRunning_def A0_def)

subsection \<open>The stream\<close>

text \<open>
  C9. After \<open>SetStream(h)\<close> with \<open>h\<close> not nil \<open>IsAttached\<close> is true, after \<open>SetStream(nil)\<close>
  it is false: \<open>IsAttached\<close> says whether the stream last set is not nil.
\<close>

theorem IsAttached_SetStream:
  "IsAttached (SetStream (Some h) e) \<and> \<not> IsAttached (SetStream None e) \<and>
   IsAttached (SetStream s e) = (s \<noteq> None) \<and>
   IsAttached (SetStream s (SetStream s' e)) = (s \<noteq> None)"
  by (simp add: IsAttached_def SetStream_def)

theorem IsAttached_SetStream_witness:
  "IsAttached (SetStream (Some 7) (env_with (Inl ''not found'') ''offline'')) \<and>
   \<not> IsAttached (SetStream None env_after)"
  using IsAttached_SetStream [where h = 7 and e = "env_with (Inl ''not found'') ''offline''"]
    IsAttached_SetStream [where e = env_after and h = "7::nat" and s = "None" and s' = None]
  by simp

subsection \<open>The state is always one of the four\<close>

text \<open>
  C8. An environment that \<open>New\<close> returns has the state \<open>ProcessOfflineState\<close> and a nil
  stream. In every environment reached from it by calls that return, the state is one of
  the four values: a call of \<open>SetState\<close> panics or leaves its argument, one of the four,
  as the state, and every other call leaves the state as it was.
\<close>

theorem State_always_valid:
  assumes "New K cluster ident m c = Inr e0" and "run K e0 calls = Returned e"
  shows "State e0 = ProcessOfflineState K \<and> stream e0 = None \<and> State e \<in> valid_states K \<and>
         (SetState K e s = Panicked (''invalid server state received: '' @ s) \<or>
          (\<exists>e'. SetState K e s = Returned e' \<and> State e' = s \<and> s \<in> valid_states K)) \<and>
         ((\<forall>s. call \<noteq> CallSetState s) \<and> step K e call = Returned e' \<longrightarrow> State e' = State e)"
proof -
  from assms(1) have init: "State e0 = ProcessOfflineState K \<and> stream e0 = None"
    by (rule New_State)
  then have "State e0 \<in> valid_states K" by (simp add: valid_states_def)
  with assms(2) have inv: "State e \<in> valid_states K" by (rule run_State)
  have set: "SetState K e s = Panicked (''invalid server state received: '' @ s) \<or>
          (\<exists>e'. SetState K e s = Returned e' \<and> State e' = s \<and> s \<in> valid_states K)"
    using SetState_Panicked_or_Returned [of K e s] SetState_Returned [of K e s] by blast
  have other: "(\<forall>s. call \<noteq> CallSetState s) \<and> step K e call = Returned e' \<longrightarrow> State e' = State e"
    using step_other_State [of K e call e'] by blast
  from init inv set other show ?thesis by blast
qed

theorem State_always_valid_witness:
  "New K0 (Inr ((), \<lambda>ns ctx name. Inl ''not found'')) ''srv'' \<lparr>Image = ''img'', Stop = ()\<rparr> ()
     = Inr (env_with (Inl ''not found'') ''offline'') \<and>
   run K0 (env_with (Inl ''not found'') ''offline'')
     [CallSetState ''starting'', CallSetStream (Some 7), CallSetState ''starting'',
      CallSetImage ''img2'', CallSetState ''running''] = Returned env_after \<and>
   State (env_with (Inl ''not found'') ''offline'') = ProcessOfflineState K0 \<and>
   stream (env_with (Inl ''not found'') ''offline'') = None \<and>
   State env_after \<in> valid_states K0"
  using State_always_valid
          [OF New_example run_example, where s = "''paused''"
             and call = "CallSetImage ''img3''" and e' = env_after]
    New_example run_example
  by blast

end
